theory Spec2Isabelle
  imports Complex_Main
begin

section \<open>SpinCameraControls: a shallow embedding\<close>

text \<open>
  The controller of \<^verbatim>\<open>src/SpinCameraControls.ts\<close> is a class whose event handlers
  mutate the instance and the camera it holds. Here the instance is a record, every
  handler is a function from the state before to the state after, and the calls that
  leave the class (\<^verbatim>\<open>dispatchEvent\<close>, \<^verbatim>\<open>camera.lookAt\<close>,
  \<^verbatim>\<open>camera.updateProjectionMatrix\<close>, \<^verbatim>\<open>e.preventDefault\<close>) are recorded in
  the state in the order they are made.

  JavaScript numbers are idealised as real numbers: \<^verbatim>\<open>Math.sin\<close>, \<^verbatim>\<open>Math.cos\<close>
  and \<^verbatim>\<open>Math.asin\<close> are \<^term>\<open>sin\<close>, \<^term>\<open>cos\<close> and \<^term>\<open>arcsin\<close>, and
  \<^verbatim>\<open>Math.PI\<close> is \<^term>\<open>pi\<close>. Rounding, infinities and NaN are outside the
  model; \<^verbatim>\<open>Math.asin\<close> is meaningful for arguments in \<open>[-1, 1]\<close> only. The sign
  of a zero is kept in the one place where the value of a result depends on it: the
  components of the direction that the press handler gives to \<^verbatim>\<open>Math.atan2\<close>.
\<close>

subsection \<open>Values of three.js and of the DOM\<close>

text \<open>
  A number whose zero has a sign: \<open>Number r\<close> is the number \<open>r\<close>, with \<open>Number 0\<close>
  the positive zero, and \<open>NegativeZero\<close> is \<^verbatim>\<open>-0\<close>.
\<close>

datatype number = Number real | NegativeZero

fun numberValue :: "number \<Rightarrow> real" where
  "numberValue (Number r) = r"
| "numberValue NegativeZero = 0"

fun signBit :: "number \<Rightarrow> bool" where
  "signBit (Number r) = (r < 0)"
| "signBit NegativeZero = True"

text \<open>
  \<^verbatim>\<open>THREE.Vector3\<close>. Positions and look-at targets have real components; the world
  direction read at a press has components of type \<^typ>\<open>number\<close>.
\<close>

datatype 'a vector3 = Vector3 (vx: 'a) (vy: 'a) (vz: 'a)

text \<open>\<^verbatim>\<open>Vector3.add(v)\<close>: component-wise sum, stored in the receiver.\<close>

definition add :: "real vector3 \<Rightarrow> real vector3 \<Rightarrow> real vector3" where
  "add t v = Vector3 (vx t + vx v) (vy t + vy v) (vz t + vz v)"

text \<open>\<^verbatim>\<open>THREE.MathUtils.clamp(value, min, max)\<close> is \<^verbatim>\<open>Math.max(min, Math.min(max, value))\<close>.\<close>

definition clamp :: "real \<Rightarrow> real \<Rightarrow> real \<Rightarrow> real" where
  "clamp v lo hi = max lo (min hi v)"

text \<open>
  \<^verbatim>\<open>Math.atan2(y, x)\<close>, as ECMAScript defines it on finite arguments: the angle of the
  point \<open>(x, y)\<close>, in \<open>[-\<pi>, \<pi>]\<close>. On the negative \<open>x\<close> axis, and at the origin
  with \<open>x = -0\<close>, the sign of the zero \<open>y\<close> decides between \<open>\<pi>\<close> and \<open>-\<pi>\<close>:
  \<^verbatim>\<open>Math.atan2(0, -1)\<close> is \<open>\<pi>\<close> and \<^verbatim>\<open>Math.atan2(-0, -1)\<close> is \<open>-\<pi>\<close>. The result
  is given as a real; where \<^verbatim>\<open>Math.atan2\<close> returns a zero, its sign is not kept.
\<close>

definition atan2 :: "number \<Rightarrow> number \<Rightarrow> real" where
  "atan2 y x =
     (let b = numberValue y; a = numberValue x in
      if 0 < a then arctan (b / a)
      else if a < 0 then (if signBit y then arctan (b / a) - pi else arctan (b / a) + pi)
      else if 0 < b then pi / 2
      else if b < 0 then - (pi / 2)
      else if signBit x then (if signBit y then - pi else pi)
      else 0)"

text \<open>The actions of \<^verbatim>\<open>THREE.MOUSE\<close> and \<^verbatim>\<open>THREE.TOUCH\<close> that a binding can name.\<close>

datatype MOUSE = MOUSE_ROTATE | MOUSE_DOLLY | MOUSE_PAN

datatype TOUCH = TOUCH_ROTATE | TOUCH_PAN | TOUCH_DOLLY_PAN | TOUCH_DOLLY_ROTATE

text \<open>The binding objects; an absent key (\<^verbatim>\<open>undefined\<close>) is \<^term>\<open>None\<close>.\<close>

record mouse_bindings =
  LEFT :: "MOUSE option"
  RIGHT :: "MOUSE option"

record touch_bindings =
  ONE :: "TOUCH option"
  TWO :: "TOUCH option"

text \<open>The three notifications of \<^verbatim>\<open>SpinCameraControlsEventMap\<close>.\<close>

datatype notification = Start | Change | End

text \<open>
  The camera. \<^verbatim>\<open>position\<close> and \<^verbatim>\<open>fov\<close> are the fields the controller reads and
  writes; \<open>calls\<close> lists, oldest first, the methods of the camera that the controller
  has invoked for their effect. The orientation itself belongs to three.js: it changes
  only through \<^verbatim>\<open>lookAt\<close>, and what \<^verbatim>\<open>getWorldDirection\<close> returns is given to the
  press handler as an argument.
\<close>

datatype camera_call = LookAt "real vector3" | UpdateProjectionMatrix

record camera =
  position :: "real vector3"
  fov :: real
  calls :: "camera_call list"

definition lookAt :: "real vector3 \<Rightarrow> camera \<Rightarrow> camera" where
  "lookAt target c = c\<lparr>calls := calls c @ [LookAt target]\<rparr>"

definition updateProjectionMatrix :: "camera \<Rightarrow> camera" where
  "updateProjectionMatrix c = c\<lparr>calls := calls c @ [UpdateProjectionMatrix]\<rparr>"

text \<open>A coordinate pair \<^verbatim>\<open>{ x, y }\<close>, as stored in \<^verbatim>\<open>_previousMousePosition\<close>.\<close>

datatype point = Point (px: real) (py: real)

text \<open>A touch point, and a mouse event, which adds the button.\<close>

record touch =
  clientX :: real
  clientY :: real

record mouse_event = touch +
  button :: int

record wheel_event =
  deltaY :: real
  defaultPrevented :: bool

definition preventDefault :: "wheel_event \<Rightarrow> wheel_event" where
  "preventDefault e = e\<lparr>defaultPrevented := True\<rparr>"

subsection \<open>The controller\<close>

record controls =
  camera :: camera
  rotateSensitivity :: real
  enableZoom :: bool
  zoomSensitivity :: real
  mouseButtons :: mouse_bindings
  touches :: touch_bindings
  yaw :: real
  pitch :: real
  minFov :: real
  maxFov :: real
  isDragging :: bool
  previousMousePosition :: point
  dispatched :: "notification list"

text \<open>The constructor with no DOM element: the field initialisers of the class.\<close>

definition SpinCameraControls :: "camera \<Rightarrow> controls" where
  "SpinCameraControls cam =
     \<lparr>camera = cam,
      rotateSensitivity = 0.005,
      enableZoom = True,
      zoomSensitivity = 0.01,
      mouseButtons = \<lparr>LEFT = Some MOUSE_ROTATE, RIGHT = None\<rparr>,
      touches = \<lparr>ONE = Some TOUCH_ROTATE, TWO = None\<rparr>,
      yaw = 0,
      pitch = 0,
      minFov = 30,
      maxFov = 90,
      isDragging = False,
      previousMousePosition = Point 0 0,
      dispatched = []\<rparr>"

definition dispatchEvent :: "notification \<Rightarrow> controls \<Rightarrow> controls" where
  "dispatchEvent ev s = s\<lparr>dispatched := dispatched s @ [ev]\<rparr>"

text \<open>\<^verbatim>\<open>_onWheel\<close>; the event is returned with the state, to show \<^verbatim>\<open>preventDefault\<close>.\<close>

definition onWheel :: "wheel_event \<Rightarrow> controls \<Rightarrow> wheel_event \<times> controls" where
  "onWheel e s =
     (if \<not> enableZoom s then (e, s)
      else
        let e1 = preventDefault e;
            c1 = (camera s)\<lparr>fov := fov (camera s) + deltaY e * zoomSensitivity s\<rparr>;
            c2 = c1\<lparr>fov := clamp (fov c1) (minFov s) (maxFov s)\<rparr>;
            c3 = updateProjectionMatrix c2
        in (e1, s\<lparr>camera := c3\<rparr>))"

text \<open>
  \<^verbatim>\<open>_onMouseDown\<close>. The first argument is the vector that
  \<^verbatim>\<open>this.camera.getWorldDirection(direction)\<close> stores in \<^verbatim>\<open>direction\<close>.
\<close>

definition mouseAction :: "mouse_event \<Rightarrow> controls \<Rightarrow> MOUSE option" where
  "mouseAction e s =
     (if button e = 0 then LEFT (mouseButtons s)
      else if button e = 2 then RIGHT (mouseButtons s)
      else None)"

definition onMouseDown :: "number vector3 \<Rightarrow> mouse_event \<Rightarrow> controls \<Rightarrow> controls" where
  "onMouseDown direction e s =
     (if mouseAction e s = None \<or> mouseAction e s \<noteq> Some MOUSE_ROTATE then s
      else
        let s1 = s\<lparr>isDragging := True\<rparr>;
            s2 = s1\<lparr>yaw := atan2 (vx direction) (vz direction)\<rparr>;
            s3 = s2\<lparr>pitch := arcsin (numberValue (vy direction))\<rparr>;
            s4 = s3\<lparr>previousMousePosition := Point (clientX e) (clientY e)\<rparr>
        in dispatchEvent Start s4)"

text \<open>\<^verbatim>\<open>_updateCameraRotation\<close>.\<close>

definition updateCameraRotation :: "controls \<Rightarrow> controls" where
  "updateCameraRotation s =
     (let target = Vector3 (cos (pitch s) * sin (yaw s)) (sin (pitch s)) (cos (pitch s) * cos (yaw s));
          target1 = add target (position (camera s));
          s1 = s\<lparr>camera := lookAt target1 (camera s)\<rparr>
      in dispatchEvent Change s1)"

text \<open>\<^verbatim>\<open>_onMouseMove\<close>.\<close>

definition onMouseMove :: "mouse_event \<Rightarrow> controls \<Rightarrow> controls" where
  "onMouseMove e s =
     (if \<not> isDragging s then s
      else
        let dx = clientX e - px (previousMousePosition s);
            dy = clientY e - py (previousMousePosition s);
            s1 = s\<lparr>yaw := yaw s - dx * rotateSensitivity s\<rparr>;
            s2 = s1\<lparr>pitch := pitch s1 - dy * rotateSensitivity s1\<rparr>;
            s3 = s2\<lparr>pitch := max (- pi / 2) (min (pi / 2) (pitch s2))\<rparr>;
            s4 = updateCameraRotation s3
        in s4\<lparr>previousMousePosition := Point (clientX e) (clientY e)\<rparr>)"

text \<open>\<^verbatim>\<open>_onMouseUp\<close>, registered for \<^verbatim>\<open>mouseup\<close> and for \<^verbatim>\<open>mouseleave\<close>.\<close>

definition onMouseUp :: "controls \<Rightarrow> controls" where
  "onMouseUp s = dispatchEvent End (s\<lparr>isDragging := False\<rparr>)"

text \<open>
  \<^verbatim>\<open>_onTouchStart\<close>, \<^verbatim>\<open>_onTouchMove\<close> and \<^verbatim>\<open>_onTouchEnd\<close>. The argument is
  \<^verbatim>\<open>e.touches\<close>, the list of the touch points now on the surface.
\<close>

definition onTouchStart :: "touch list \<Rightarrow> controls \<Rightarrow> controls" where
  "onTouchStart ts s =
     (let s1 = (if length ts = 1
                then s\<lparr>previousMousePosition := Point (clientX (ts ! 0)) (clientY (ts ! 0))\<rparr>
                else s)
      in dispatchEvent Start s1)"

definition onTouchMove :: "touch list \<Rightarrow> controls \<Rightarrow> controls" where
  "onTouchMove ts s =
     (if length ts = 1 then
        let dx = clientX (ts ! 0) - px (previousMousePosition s);
            dy = clientY (ts ! 0) - py (previousMousePosition s);
            s1 = s\<lparr>yaw := yaw s - dx * rotateSensitivity s\<rparr>;
            s2 = s1\<lparr>pitch := pitch s1 - dy * rotateSensitivity s1\<rparr>;
            s3 = s2\<lparr>pitch := max (- pi / 2) (min (pi / 2) (pitch s2))\<rparr>;
            s4 = updateCameraRotation s3
        in s4\<lparr>previousMousePosition := Point (clientX (ts ! 0)) (clientY (ts ! 0))\<rparr>
      else s)"

definition onTouchEnd :: "controls \<Rightarrow> controls" where
  "onTouchEnd s = dispatchEvent End s"

subsection \<open>Sequences of events\<close>

text \<open>
  The events of the surface, as \<^verbatim>\<open>connect\<close> registers them. A \<open>MouseDown\<close> carries
  the world direction that the camera reports when the event arrives. For a camera,
  \<^verbatim>\<open>getWorldDirection\<close> of three.js is the negated and normalised third column of the
  world matrix, so that a positive zero of the matrix arrives as \<^verbatim>\<open>-0\<close>.
\<close>

datatype input =
    MouseDown "number vector3" mouse_event
  | MouseMove mouse_event
  | MouseUp
  | MouseLeave
  | TouchStart "touch list"
  | TouchMove "touch list"
  | TouchEnd
  | Wheel wheel_event

fun handle :: "input \<Rightarrow> controls \<Rightarrow> controls" where
  "handle (MouseDown d e) s = onMouseDown d e s"
| "handle (MouseMove e) s = onMouseMove e s"
| "handle MouseUp s = onMouseUp s"
| "handle MouseLeave s = onMouseUp s"
| "handle (TouchStart ts) s = onTouchStart ts s"
| "handle (TouchMove ts) s = onTouchMove ts s"
| "handle TouchEnd s = onTouchEnd s"
| "handle (Wheel e) s = snd (onWheel e s)"

fun run :: "input list \<Rightarrow> controls \<Rightarrow> controls" where
  "run [] s = s"
| "run (i # ins) s = run ins (handle i s)"

text \<open>Pitch within the closed interval from \<open>-\<pi>/2\<close> to \<open>\<pi>/2\<close>.\<close>

definition pitchInRange :: "controls \<Rightarrow> bool" where
  "pitchInRange s = (- pi / 2 \<le> pitch s \<and> pitch s \<le> pi / 2)"

text \<open>
  The direction a press carries has its vertical component in \<open>[-1, 1]\<close>, as every
  unit vector has; other events carry no direction.
\<close>

fun directionInDomain :: "input \<Rightarrow> bool" where
  "directionInDomain (MouseDown d e) =
     (- 1 \<le> numberValue (vy d) \<and> numberValue (vy d) \<le> 1)"
| "directionInDomain _ = True"

definition unitVector :: "number vector3 \<Rightarrow> bool" where
  "unitVector d =
     ((numberValue (vx d))\<^sup>2 + (numberValue (vy d))\<^sup>2 + (numberValue (vz d))\<^sup>2 = 1)"

text \<open>
  The camera of the demo scene (\<^verbatim>\<open>stories/context/Scene.tsx\<close>): a
  \<^verbatim>\<open>new THREE.PerspectiveCamera()\<close>, whose field of view is 50, placed at
  \<^verbatim>\<open>DEFAULT_CAMERA_POSITION\<close>.
\<close>

definition sceneCamera :: camera where
  "sceneCamera = \<lparr>position = Vector3 0 10 10, fov = 50, calls = []\<rparr>"

section \<open>Properties\<close>

subsection \<open>Pitch stays clamped; yaw is clamped by no move\<close>

lemma pitch_updateCameraRotation: "pitch (updateCameraRotation s) = pitch s"
  by (simp add: updateCameraRotation_def Let_def dispatchEvent_def)

lemma clamp_pitch_bounds:
  "- pi / 2 \<le> max (- pi / 2) (min (pi / 2) v) \<and> max (- pi / 2) (min (pi / 2) v) \<le> pi / 2"
proof -
  have "- pi / 2 \<le> pi / 2" using pi_ge_zero by simp
  then show ?thesis by (simp add: max_def min_def)
qed

lemma onMouseDown_pitchInRange:
  assumes "pitchInRange s" and "- 1 \<le> numberValue (vy d)" and "numberValue (vy d) \<le> 1"
  shows "pitchInRange (onMouseDown d e s)"
proof (cases "mouseAction e s = Some MOUSE_ROTATE")
  case True
  have "- (pi / 2) \<le> arcsin (numberValue (vy d)) \<and> arcsin (numberValue (vy d)) \<le> pi / 2"
    using arcsin_bounded [OF assms(2,3)] .
  with True show ?thesis
    by (simp add: onMouseDown_def Let_def dispatchEvent_def pitchInRange_def)
next
  case False
  with assms(1) show ?thesis by (auto simp add: onMouseDown_def)
qed

lemma onMouseMove_pitchInRange:
  "pitchInRange s \<Longrightarrow> pitchInRange (onMouseMove e s)"
  using clamp_pitch_bounds
  by (simp add: onMouseMove_def Let_def pitchInRange_def pitch_updateCameraRotation)

lemma onTouchMove_pitchInRange:
  "pitchInRange s \<Longrightarrow> pitchInRange (onTouchMove ts s)"
  using clamp_pitch_bounds
  by (simp add: onTouchMove_def Let_def pitchInRange_def pitch_updateCameraRotation)

lemma handle_pitchInRange:
  assumes "pitchInRange s" and "directionInDomain i"
  shows "pitchInRange (handle i s)"
proof (cases i)
  case (MouseDown d e)
  with assms show ?thesis by (simp add: onMouseDown_pitchInRange)
next
  case (MouseMove e)
  with assms show ?thesis by (simp add: onMouseMove_pitchInRange)
next
  case (TouchMove ts)
  with assms show ?thesis by (simp add: onTouchMove_pitchInRange)
next
  case (Wheel e)
  with assms show ?thesis by (simp add: onWheel_def Let_def pitchInRange_def)
qed (use assms in \<open>simp_all add: pitchInRange_def onMouseUp_def onTouchStart_def onTouchEnd_def
      dispatchEvent_def Let_def\<close>)

lemma run_pitchInRange:
  "pitchInRange s \<Longrightarrow> \<forall>i \<in> set ins. directionInDomain i \<Longrightarrow> pitchInRange (run ins s)"
proof (induction ins arbitrary: s)
  case Nil
  then show ?case by simp
next
  case (Cons i ins)
  from Cons.prems have "pitchInRange (handle i s)" by (simp add: handle_pitchInRange)
  with Cons show ?case by simp
qed

lemma yaw_handle:
  "yaw (handle i t) =
     (case i of
        MouseDown d e \<Rightarrow>
          if mouseAction e t = Some MOUSE_ROTATE then atan2 (vx d) (vz d) else yaw t
      | MouseMove e \<Rightarrow>
          if isDragging t
          then yaw t - (clientX e - px (previousMousePosition t)) * rotateSensitivity t
          else yaw t
      | TouchMove ts \<Rightarrow>
          if length ts = 1
          then yaw t - (clientX (ts ! 0) - px (previousMousePosition t)) * rotateSensitivity t
          else yaw t
      | _ \<Rightarrow> yaw t)"
  by (cases i)
    (auto simp add: onMouseDown_def onMouseMove_def onTouchMove_def onMouseUp_def onTouchStart_def
      onTouchEnd_def onWheel_def dispatchEvent_def updateCameraRotation_def Let_def)

text \<open>What \<^verbatim>\<open>Math.atan2\<close> returns lies between \<open>-\<pi>\<close> and \<open>\<pi>\<close>.\<close>

lemma signBit_value:
  "signBit y \<Longrightarrow> numberValue y \<le> 0" "\<not> signBit y \<Longrightarrow> 0 \<le> numberValue y"
  by (cases y; simp)+

lemma atan2_range: "- pi \<le> atan2 y x \<and> atan2 y x \<le> pi"
proof -
  let ?b = "numberValue y" and ?a = "numberValue x"
  have t: "- (pi / 2) < arctan (?b / ?a) \<and> arctan (?b / ?a) < pi / 2"
    by (rule arctan_bounded)
  consider "0 < ?a" | "?a < 0" "signBit y" | "?a < 0" "\<not> signBit y" | "?a = 0"
    by linarith
  then show ?thesis
  proof cases
    case 1
    with t show ?thesis by (simp add: atan2_def Let_def)
  next
    case 2
    then have "0 \<le> ?b / ?a" using signBit_value(1) [of y] by (simp add: divide_nonpos_neg)
    then have "0 \<le> arctan (?b / ?a)" by simp
    with 2 t show ?thesis by (simp add: atan2_def Let_def)
  next
    case 3
    then have "?b / ?a \<le> 0" using signBit_value(2) [of y] by (simp add: divide_nonneg_neg)
    then have "arctan (?b / ?a) \<le> 0" by simp
    with 3 t show ?thesis by (simp add: atan2_def Let_def)
  next
    case 4
    then show ?thesis
      by (simp add: atan2_def Let_def) (insert pi_gt_zero, arith)
  qed
qed

lemma press_yaw_range:
  "mouseAction e t = Some MOUSE_ROTATE \<Longrightarrow>
   - pi \<le> yaw (onMouseDown d e t) \<and> yaw (onMouseDown d e t) \<le> pi"
  using atan2_range [of "vx d" "vz d"]
  by (simp add: onMouseDown_def Let_def dispatchEvent_def)

text \<open>
  Over a run of moves the steps add up: yaw ends at its start value minus the whole
  horizontal displacement times the sensitivity, however large that is.
\<close>

lemma onMouseMove_drag_step:
  assumes "isDragging s"
  shows "isDragging (onMouseMove e s) \<and>
         rotateSensitivity (onMouseMove e s) = rotateSensitivity s \<and>
         previousMousePosition (onMouseMove e s) = Point (clientX e) (clientY e) \<and>
         yaw (onMouseMove e s) =
           yaw s - (clientX e - px (previousMousePosition s)) * rotateSensitivity s"
  using assms
  by (simp add: onMouseMove_def Let_def updateCameraRotation_def dispatchEvent_def)

lemma drag_yaw_telescopes:
  "isDragging s \<Longrightarrow> es \<noteq> [] \<Longrightarrow>
   yaw (run (map MouseMove es) s) =
     yaw s - (clientX (last es) - px (previousMousePosition s)) * rotateSensitivity s"
proof (induction es arbitrary: s)
  case Nil
  then show ?case by simp
next
  case (Cons e es)
  let ?s1 = "onMouseMove e s"
  note st = onMouseMove_drag_step [OF Cons.prems(1), of e]
  show ?case
  proof (cases "es = []")
    case True
    with st show ?thesis by simp
  next
    case False
    from st have "isDragging ?s1" by simp
    from Cons.IH [OF this False]
    have "yaw (run (map MouseMove es) ?s1) =
            yaw ?s1 - (clientX (last es) - px (previousMousePosition ?s1)) * rotateSensitivity ?s1" .
    with st False show ?thesis by (simp add: algebra_simps)
  qed
qed

lemma onTouchMove_single_step:
  "rotateSensitivity (onTouchMove [p] s) = rotateSensitivity s \<and>
   previousMousePosition (onTouchMove [p] s) = Point (clientX p) (clientY p) \<and>
   yaw (onTouchMove [p] s) =
     yaw s - (clientX p - px (previousMousePosition s)) * rotateSensitivity s"
  by (simp add: onTouchMove_def Let_def updateCameraRotation_def dispatchEvent_def)

lemma touch_yaw_telescopes:
  "ps \<noteq> [] \<Longrightarrow>
   yaw (run (map (\<lambda>p. TouchMove [p]) ps) s) =
     yaw s - (clientX (last ps) - px (previousMousePosition s)) * rotateSensitivity s"
proof (induction ps arbitrary: s)
  case Nil
  then show ?case by simp
next
  case (Cons p ps)
  let ?s1 = "onTouchMove [p] s"
  note st = onTouchMove_single_step [of p s]
  show ?case
  proof (cases "ps = []")
    case True
    with st show ?thesis by simp
  next
    case False
    from Cons.IH [OF False]
    have "yaw (run (map (\<lambda>p. TouchMove [p]) ps) ?s1) =
            yaw ?s1 - (clientX (last ps) - px (previousMousePosition ?s1)) * rotateSensitivity ?s1" .
    with st False show ?thesis by (simp add: algebra_simps)
  qed
qed

lemma trig_shift: "sin (- pi - 1 / 2) = sin (1 / 2)" "cos (- pi - 1 / 2) = - cos (1 / 2)"
  by (simp_all add: sin_diff cos_diff)

lemma half_trig_pos: "0 < sin (1 / 2 :: real)" "0 < cos (1 / 2 :: real)"
proof -
  have "(1 / 2 :: real) < pi / 2" using pi_ge_two by simp
  then show "0 < sin (1 / 2 :: real)" "0 < cos (1 / 2 :: real)"
    by (simp_all add: sin_gt_zero2 cos_gt_zero)
qed

lemma atan2_half: "atan2 (Number (sin (1 / 2))) (Number (- cos (1 / 2))) = pi - 1 / 2"
proof -
  have lt: "(1 / 2 :: real) < pi / 2" using pi_ge_two by simp
  have "sin (1 / 2) / - cos (1 / 2 :: real) = - tan (1 / 2)"
    by (simp add: tan_def)
  moreover have "arctan (tan (1 / 2 :: real)) = 1 / 2"
    using lt by (simp add: arctan_tan)
  ultimately have "arctan (sin (1 / 2) / - cos (1 / 2 :: real)) = - (1 / 2)"
    by (simp add: arctan_minus)
  with half_trig_pos show ?thesis
    by (simp add: atan2_def Let_def)
qed

text \<open>
  C1, as stated, fails in its second half: a qualifying press does re-normalise yaw.
  A new controller on the scene camera, which faces \<open>-Z\<close> and so reports the direction
  \<open>(-0, -0, -1)\<close>, is pressed at \<open>(0, 0)\<close>, dragged to \<open>(100, 0)\<close> and released. Yaw
  is then \<open>-\<pi> - 1/2\<close>, outside \<open>[-\<pi>, \<pi>]\<close>, and the one look-at call has pointed the
  camera at its position plus \<open>(sin (1/2), 0, - cos (1/2))\<close>. The next press, on a
  camera that still has this direction, stores \<open>\<pi> - 1/2\<close>: the same direction, a full
  turn away from the stored value.
\<close>

theorem press_renormalises_yaw_counterexample:
  "yaw (run [MouseDown (Vector3 NegativeZero NegativeZero (Number (- 1))) \<lparr>clientX = 0, clientY = 0, button = 0\<rparr>,
             MouseMove \<lparr>clientX = 100, clientY = 0, button = 0\<rparr>,
             MouseUp]
          (SpinCameraControls sceneCamera)) = - pi - 1 / 2 \<and>
   calls (camera (run [MouseDown (Vector3 NegativeZero NegativeZero (Number (- 1))) \<lparr>clientX = 0, clientY = 0, button = 0\<rparr>,
                       MouseMove \<lparr>clientX = 100, clientY = 0, button = 0\<rparr>,
                       MouseUp]
                    (SpinCameraControls sceneCamera)))
     = [LookAt (add (Vector3 (sin (1 / 2)) 0 (- cos (1 / 2))) (position sceneCamera))] \<and>
   yaw (run [MouseDown (Vector3 NegativeZero NegativeZero (Number (- 1))) \<lparr>clientX = 0, clientY = 0, button = 0\<rparr>,
             MouseMove \<lparr>clientX = 100, clientY = 0, button = 0\<rparr>,
             MouseUp,
             MouseDown (Vector3 (Number (sin (1 / 2))) (Number 0) (Number (- cos (1 / 2))))
               \<lparr>clientX = 100, clientY = 0, button = 0\<rparr>]
          (SpinCameraControls sceneCamera)) = pi - 1 / 2"
proof -
  have c: "max (- pi / 2) (min (pi / 2) 0) = 0"
    by (simp add: max_def min_def not_le)
  show ?thesis
    using c
    by (simp add: SpinCameraControls_def sceneCamera_def onMouseDown_def mouseAction_def
        onMouseMove_def onMouseUp_def Let_def dispatchEvent_def updateCameraRotation_def
        lookAt_def add_def atan2_def [of NegativeZero] atan2_half trig_shift)
qed

text \<open>
  C1, amended. Start from any state whose pitch is in range (a new controller has
  pitch 0) and deliver any sequence of events in which every press finds a camera
  direction with vertical component in \<open>[-1, 1]\<close>. Then after each event of the
  sequence the stored pitch lies in \<open>[-\<pi>/2, \<pi>/2]\<close>, bounds included. Yaw is clamped
  by no move: over any run of mouse moves in a drag, and over any run of one-finger
  touch moves, it ends at its start value minus the whole horizontal displacement times
  the sensitivity. Event by event, an applied move subtracts its full delta, a
  qualifying press replaces yaw by \<^verbatim>\<open>Math.atan2\<close> of the camera direction, and every
  other event leaves yaw as it is. The value a qualifying press stores lies in
  \<open>[-\<pi>, \<pi>]\<close>: the press is the one operation that re-normalises yaw.
\<close>

theorem pitch_clamped_yaw_unclamped_by_moves:
  assumes "pitchInRange s" and "\<forall>i \<in> set ins. directionInDomain i"
  shows "(\<forall>n \<le> length ins. pitchInRange (run (take n ins) s)) \<and>
         (\<forall>t es. isDragging t \<and> es \<noteq> [] \<longrightarrow>
            yaw (run (map MouseMove es) t) =
              yaw t - (clientX (last es) - px (previousMousePosition t)) * rotateSensitivity t) \<and>
         (\<forall>t ps. ps \<noteq> [] \<longrightarrow>
            yaw (run (map (\<lambda>p. TouchMove [p]) ps) t) =
              yaw t - (clientX (last ps) - px (previousMousePosition t)) * rotateSensitivity t) \<and>
         (\<forall>i t. yaw (handle i t) =
           (case i of
              MouseDown d e \<Rightarrow>
                if mouseAction e t = Some MOUSE_ROTATE then atan2 (vx d) (vz d) else yaw t
            | MouseMove e \<Rightarrow>
                if isDragging t
                then yaw t - (clientX e - px (previousMousePosition t)) * rotateSensitivity t
                else yaw t
            | TouchMove ts \<Rightarrow>
                if length ts = 1
                then yaw t - (clientX (ts ! 0) - px (previousMousePosition t)) * rotateSensitivity t
                else yaw t
            | _ \<Rightarrow> yaw t)) \<and>
         (\<forall>t d e. mouseAction e t = Some MOUSE_ROTATE \<longrightarrow>
            - pi \<le> yaw (onMouseDown d e t) \<and> yaw (onMouseDown d e t) \<le> pi)"
proof -
  have "pitchInRange (run (take n ins) s)" for n
  proof -
    have "\<forall>i \<in> set (take n ins). directionInDomain i"
      using assms(2) by (meson in_set_takeD)
    with assms(1) show ?thesis by (rule run_pitchInRange)
  qed
  then have a: "\<forall>n \<le> length ins. pitchInRange (run (take n ins) s)" by simp
  have b: "\<forall>t es. isDragging t \<and> es \<noteq> [] \<longrightarrow>
            yaw (run (map MouseMove es) t) =
              yaw t - (clientX (last es) - px (previousMousePosition t)) * rotateSensitivity t"
    using drag_yaw_telescopes by blast
  have c: "\<forall>t ps. ps \<noteq> [] \<longrightarrow>
            yaw (run (map (\<lambda>p. TouchMove [p]) ps) t) =
              yaw t - (clientX (last ps) - px (previousMousePosition t)) * rotateSensitivity t"
    using touch_yaw_telescopes by blast
  have d: "\<forall>t d e. mouseAction e t = Some MOUSE_ROTATE \<longrightarrow>
            - pi \<le> yaw (onMouseDown d e t) \<and> yaw (onMouseDown d e t) \<le> pi"
    using press_yaw_range by blast
  from a b c d show ?thesis by (simp only: yaw_handle simp_thms)
qed

text \<open>
  A press on a camera facing \<open>-Z\<close>, then a move by \<open>(-2000, 5000)\<close>: pitch stops at
  \<open>-\<pi>/2\<close> while yaw reaches \<open>-\<pi> + 10\<close>, more than \<open>\<pi>\<close>.
\<close>

theorem pitch_clamped_yaw_unclamped_by_moves_witness:
  "pitchInRange (SpinCameraControls sceneCamera) \<and>
   pitchInRange (run [MouseDown (Vector3 NegativeZero NegativeZero (Number (- 1))) \<lparr>clientX = 0, clientY = 0, button = 0\<rparr>,
                      MouseMove \<lparr>clientX = - 2000, clientY = 5000, button = 0\<rparr>]
                   (SpinCameraControls sceneCamera)) \<and>
   pitch (run [MouseDown (Vector3 NegativeZero NegativeZero (Number (- 1))) \<lparr>clientX = 0, clientY = 0, button = 0\<rparr>,
               MouseMove \<lparr>clientX = - 2000, clientY = 5000, button = 0\<rparr>]
            (SpinCameraControls sceneCamera)) = - pi / 2 \<and>
   yaw (run [MouseDown (Vector3 NegativeZero NegativeZero (Number (- 1))) \<lparr>clientX = 0, clientY = 0, button = 0\<rparr>,
             MouseMove \<lparr>clientX = - 2000, clientY = 5000, button = 0\<rparr>]
          (SpinCameraControls sceneCamera)) = - pi + 10"
proof -
  let ?s = "SpinCameraControls sceneCamera"
  let ?ins = "[MouseDown (Vector3 NegativeZero NegativeZero (Number (- 1))) \<lparr>clientX = 0, clientY = 0, button = 0\<rparr>,
               MouseMove \<lparr>clientX = - 2000, clientY = 5000, button = 0\<rparr>]"
  have h1: "pitchInRange ?s"
    using pi_ge_zero by (simp add: pitchInRange_def SpinCameraControls_def)
  have h2: "\<forall>i \<in> set ?ins. directionInDomain i" by simp
  have "\<forall>n \<le> length ?ins. pitchInRange (run (take n ?ins) ?s)"
    using pitch_clamped_yaw_unclamped_by_moves [OF h1 h2] by blast
  then have "pitchInRange (run (take (length ?ins) ?ins) ?s)" by (metis order_refl)
  then have r: "pitchInRange (run ?ins ?s)" by (simp only: take_all order_refl)
  have p: "pitch (run ?ins ?s) = - pi / 2"
    using pi_ge_two pi_less_4
    by (simp add: SpinCameraControls_def onMouseDown_def mouseAction_def onMouseMove_def Let_def
        dispatchEvent_def updateCameraRotation_def atan2_def max_def min_def)
  have y: "yaw (run ?ins ?s) = - pi + 10"
    by (simp add: SpinCameraControls_def onMouseDown_def mouseAction_def onMouseMove_def Let_def
        dispatchEvent_def updateCameraRotation_def atan2_def)
  from h1 r p y show ?thesis by simp
qed

subsection \<open>The wheel with zoom disabled\<close>

text \<open>
  C10. With \<^verbatim>\<open>enableZoom\<close> false the wheel handler returns at once: the state, and
  with it the field of view, the calls made to the camera (no projection update, no
  look-at), yaw and pitch, is the one before, and the event is returned as it came, so
  \<^verbatim>\<open>preventDefault\<close> was not called on it.
\<close>

theorem wheel_disabled_inert:
  "\<not> enableZoom s \<Longrightarrow> onWheel e s = (e, s)"
  by (simp add: onWheel_def)

theorem wheel_disabled_inert_witness:
  "\<not> enableZoom ((SpinCameraControls sceneCamera)\<lparr>enableZoom := False\<rparr>) \<and>
   onWheel \<lparr>deltaY = 120, defaultPrevented = False\<rparr>
       ((SpinCameraControls sceneCamera)\<lparr>enableZoom := False\<rparr>)
     = (\<lparr>deltaY = 120, defaultPrevented = False\<rparr>,
        (SpinCameraControls sceneCamera)\<lparr>enableZoom := False\<rparr>)"
  using wheel_disabled_inert [of "(SpinCameraControls sceneCamera)\<lparr>enableZoom := False\<rparr>"
      "\<lparr>deltaY = 120, defaultPrevented = False\<rparr>"]
  by (simp add: SpinCameraControls_def)

subsection \<open>A move during a drag\<close>

text \<open>
  C2. While a drag is active, a move with pointer \<open>p\<close> (a mouse move, or a touch move
  with the single touch point \<open>p\<close>) subtracts the horizontal delta times the
  sensitivity from yaw, subtracts the vertical delta times the sensitivity from pitch
  and clamps the result to \<open>[-\<pi>/2, \<pi>/2]\<close>, calls look-at once with the camera
  position plus \<open>(cos pitch \<cdot> sin yaw, sin pitch, cos pitch \<cdot> cos yaw)\<close> for the new
  angles, appends exactly one change notification, and stores \<open>p\<close> as the last pointer;
  nothing else in the state changes.
\<close>

theorem drag_move_updates:
  assumes "isDragging s"
  shows "onMouseMove e s =
    (let Y = yaw s - (clientX e - px (previousMousePosition s)) * rotateSensitivity s;
         P = clamp (pitch s - (clientY e - py (previousMousePosition s)) * rotateSensitivity s)
               (- pi / 2) (pi / 2)
     in s\<lparr>yaw := Y, pitch := P,
          camera := lookAt (add (position (camera s))
                              (Vector3 (cos P * sin Y) (sin P) (cos P * cos Y))) (camera s),
          dispatched := dispatched s @ [Change],
          previousMousePosition := Point (clientX e) (clientY e)\<rparr>) \<and>
   onTouchMove [p] s =
    (let Y = yaw s - (clientX p - px (previousMousePosition s)) * rotateSensitivity s;
         P = clamp (pitch s - (clientY p - py (previousMousePosition s)) * rotateSensitivity s)
               (- pi / 2) (pi / 2)
     in s\<lparr>yaw := Y, pitch := P,
          camera := lookAt (add (position (camera s))
                              (Vector3 (cos P * sin Y) (sin P) (cos P * cos Y))) (camera s),
          dispatched := dispatched s @ [Change],
          previousMousePosition := Point (clientX p) (clientY p)\<rparr>)"
  using assms
  by (simp add: onMouseMove_def onTouchMove_def Let_def updateCameraRotation_def dispatchEvent_def
      clamp_def add_def add.commute)

text \<open>
  From yaw 0 and pitch 0, a drag by 100 to the right with the default sensitivity
  0.005 gives yaw \<open>-0.5\<close> and leaves pitch at 0.
\<close>

theorem drag_move_updates_witness:
  "isDragging ((SpinCameraControls sceneCamera)\<lparr>isDragging := True\<rparr>) \<and>
   onMouseMove \<lparr>clientX = 100, clientY = 0, button = 0\<rparr>
       ((SpinCameraControls sceneCamera)\<lparr>isDragging := True\<rparr>) =
     (SpinCameraControls sceneCamera)
       \<lparr>isDragging := True, yaw := - (1 / 2), pitch := 0,
        camera := sceneCamera\<lparr>calls := [LookAt (Vector3 (sin (- (1 / 2))) 10 (10 + cos (- (1 / 2))))]\<rparr>,
        dispatched := [Change],
        previousMousePosition := Point 100 0\<rparr>"
proof -
  let ?s = "(SpinCameraControls sceneCamera)\<lparr>isDragging := True\<rparr>"
  have h: "isDragging ?s" by simp
  have c: "clamp 0 (- pi / 2) (pi / 2) = 0"
    using pi_ge_zero by (simp add: clamp_def)
  show ?thesis
    using drag_move_updates [OF h, of "\<lparr>clientX = 100, clientY = 0, button = 0\<rparr>"] c
    by (simp add: SpinCameraControls_def sceneCamera_def Let_def lookAt_def add_def)
qed

subsection \<open>A qualifying mouse press\<close>

text \<open>
  C3, as stated, fails at the instance it names. \<^verbatim>\<open>Camera.getWorldDirection\<close> of
  three.js negates the third column of the world matrix, so a camera facing \<open>-Z\<close>
  reports the unit direction \<open>(-0, -0, -1)\<close>, and \<^verbatim>\<open>Math.atan2(-0, -1)\<close> is \<open>-\<pi>\<close>:
  a left press on a new controller with this camera stores yaw \<open>-\<pi>\<close>, not \<open>\<pi>\<close>.
\<close>

theorem press_facing_minus_Z_counterexample:
  "mouseAction \<lparr>clientX = 10, clientY = 20, button = 0\<rparr> (SpinCameraControls sceneCamera)
     = Some MOUSE_ROTATE \<and>
   unitVector (Vector3 NegativeZero NegativeZero (Number (- 1))) \<and>
   yaw (onMouseDown (Vector3 NegativeZero NegativeZero (Number (- 1))) \<lparr>clientX = 10, clientY = 20, button = 0\<rparr>
          (SpinCameraControls sceneCamera)) = - pi \<and>
   - pi \<noteq> pi"
  by (simp add: SpinCameraControls_def unitVector_def onMouseDown_def mouseAction_def Let_def
      dispatchEvent_def atan2_def)

text \<open>
  C3, amended. A mouse press whose button resolves to the rotate action, on a camera
  whose world direction is the unit vector \<open>d\<close>, sets yaw to
  \<^verbatim>\<open>Math.atan2(d.x, d.z)\<close> and pitch to \<^verbatim>\<open>Math.asin(d.y)\<close>, stores the press
  coordinate as the last pointer, sets the drag flag and appends a start notification;
  nothing else changes. For a camera facing \<open>-Z\<close> the derived yaw is \<open>\<pi>\<close> when the
  zero \<open>x\<close> component of the direction is positive and \<open>-\<pi>\<close> when it is negative;
  the derived pitch is 0 whenever the \<open>y\<close> component is a zero.
\<close>

theorem press_resync:
  assumes "mouseAction e s = Some MOUSE_ROTATE" and "unitVector d"
  shows "onMouseDown d e s =
           s\<lparr>isDragging := True,
             yaw := atan2 (vx d) (vz d),
             pitch := arcsin (numberValue (vy d)),
             previousMousePosition := Point (clientX e) (clientY e),
             dispatched := dispatched s @ [Start]\<rparr> \<and>
         yaw (onMouseDown (Vector3 (Number 0) v (Number (- 1))) e s) = pi \<and>
         yaw (onMouseDown (Vector3 NegativeZero v (Number (- 1))) e s) = - pi \<and>
         (numberValue v = 0 \<longrightarrow> pitch (onMouseDown (Vector3 u v w) e s) = 0)"
  using assms(1) by (simp add: onMouseDown_def Let_def dispatchEvent_def atan2_def)

text \<open>
  A left press on a new controller, with the camera looking straight up, and with the
  camera facing \<open>-Z\<close>.
\<close>

theorem press_resync_witness:
  "mouseAction \<lparr>clientX = 10, clientY = 20, button = 0\<rparr> (SpinCameraControls sceneCamera)
     = Some MOUSE_ROTATE \<and>
   unitVector (Vector3 (Number 0) (Number 1) NegativeZero) \<and>
   onMouseDown (Vector3 (Number 0) (Number 1) NegativeZero) \<lparr>clientX = 10, clientY = 20, button = 0\<rparr>
       (SpinCameraControls sceneCamera) =
     (SpinCameraControls sceneCamera)
       \<lparr>isDragging := True, yaw := pi, pitch := pi / 2,
        previousMousePosition := Point 10 20, dispatched := [Start]\<rparr> \<and>
   yaw (onMouseDown (Vector3 NegativeZero NegativeZero (Number (- 1))) \<lparr>clientX = 10, clientY = 20, button = 0\<rparr>
          (SpinCameraControls sceneCamera)) = - pi \<and>
   pitch (onMouseDown (Vector3 NegativeZero NegativeZero (Number (- 1))) \<lparr>clientX = 10, clientY = 20, button = 0\<rparr>
          (SpinCameraControls sceneCamera)) = 0"
proof -
  let ?s = "SpinCameraControls sceneCamera"
  let ?e = "\<lparr>clientX = 10, clientY = 20, button = 0\<rparr>"
  let ?d = "Vector3 (Number 0) (Number 1) NegativeZero"
  have h1: "mouseAction ?e ?s = Some MOUSE_ROTATE"
    by (simp add: mouseAction_def SpinCameraControls_def)
  have h2: "unitVector ?d" by (simp add: unitVector_def)
  have a: "atan2 (Number 0) NegativeZero = pi" by (simp add: atan2_def)
  show ?thesis
    using press_resync [OF h1 h2, where v = NegativeZero and u = NegativeZero and w = "Number (- 1)"] h1 h2 a
    by (simp add: SpinCameraControls_def)
qed

subsection \<open>Moves with no drag session\<close>

text \<open>
  C4, as stated, fails for touch: \<^verbatim>\<open>_onTouchMove\<close> tests the number of touch points
  and never the drag flag. On a new controller, where no session is active, a
  single-finger touch move at \<open>(100, 0)\<close> changes yaw from 0 to \<open>-0.5\<close>, calls
  look-at, emits a change notification and moves the last pointer.
\<close>

theorem idle_touch_move_counterexample:
  "\<not> isDragging (SpinCameraControls sceneCamera) \<and>
   onTouchMove [\<lparr>clientX = 100, clientY = 0\<rparr>] (SpinCameraControls sceneCamera) =
     (SpinCameraControls sceneCamera)
       \<lparr>yaw := - (1 / 2),
        camera := sceneCamera\<lparr>calls := [LookAt (Vector3 (sin (- (1 / 2))) 10 (10 + cos (- (1 / 2))))]\<rparr>,
        dispatched := [Change],
        previousMousePosition := Point 100 0\<rparr> \<and>
   yaw (SpinCameraControls sceneCamera) = 0 \<and>
   dispatched (SpinCameraControls sceneCamera) = []"
  using pi_ge_zero
  by (simp add: SpinCameraControls_def sceneCamera_def onTouchMove_def Let_def updateCameraRotation_def
      dispatchEvent_def lookAt_def add_def)

text \<open>
  C4, amended. While the drag flag is false, every mouse move leaves the whole state as
  it is: yaw, pitch, last pointer and camera are unchanged and nothing is emitted. A
  touch move is not gated by the drag flag but by its touch count alone, in every
  state: with any number of touch points other than one it leaves the state as it is,
  and with exactly one touch point \<open>p\<close> it is always applied (yaw and pitch updated
  and pitch clamped, one look-at, one change notification, \<open>p\<close> stored as the last
  pointer), with the same result whatever the flag, which it passes on unchanged.
\<close>

theorem idle_mouse_move_inert_touch_move_ungated:
  "(\<not> isDragging s \<longrightarrow> onMouseMove e s = s) \<and>
   (\<forall>ts. length ts \<noteq> 1 \<longrightarrow> onTouchMove ts s = s) \<and>
   onTouchMove [p] s =
     (let Y = yaw s - (clientX p - px (previousMousePosition s)) * rotateSensitivity s;
          P = clamp (pitch s - (clientY p - py (previousMousePosition s)) * rotateSensitivity s)
                (- pi / 2) (pi / 2)
      in s\<lparr>yaw := Y, pitch := P,
           camera := lookAt (add (position (camera s))
                               (Vector3 (cos P * sin Y) (sin P) (cos P * cos Y))) (camera s),
           dispatched := dispatched s @ [Change],
           previousMousePosition := Point (clientX p) (clientY p)\<rparr>) \<and>
   onTouchMove [p] (s\<lparr>isDragging := b\<rparr>) = (onTouchMove [p] s)\<lparr>isDragging := b\<rparr>"
  by (simp add: onMouseMove_def onTouchMove_def Let_def updateCameraRotation_def dispatchEvent_def
      clamp_def add_def add.commute)

text \<open>
  On a new controller, where the flag is false, a mouse move and a two-finger touch
  move change nothing, and a one-finger touch move at \<open>(100, 0)\<close> is applied.
\<close>

theorem idle_mouse_move_inert_touch_move_ungated_witness:
  "\<not> isDragging (SpinCameraControls sceneCamera) \<and>
   onMouseMove \<lparr>clientX = 100, clientY = 0, button = 0\<rparr> (SpinCameraControls sceneCamera)
     = SpinCameraControls sceneCamera \<and>
   onTouchMove [\<lparr>clientX = 100, clientY = 0\<rparr>, \<lparr>clientX = 3, clientY = 4\<rparr>]
       (SpinCameraControls sceneCamera)
     = SpinCameraControls sceneCamera \<and>
   yaw (onTouchMove [\<lparr>clientX = 100, clientY = 0\<rparr>] (SpinCameraControls sceneCamera)) = - (1 / 2) \<and>
   dispatched (onTouchMove [\<lparr>clientX = 100, clientY = 0\<rparr>] (SpinCameraControls sceneCamera))
     = [Change]"
proof -
  let ?s = "SpinCameraControls sceneCamera"
  have h: "\<not> isDragging ?s" by (simp add: SpinCameraControls_def)
  have l: "length [\<lparr>clientX = 100, clientY = 0\<rparr>, \<lparr>clientX = 3, clientY = 4\<rparr>] \<noteq> 1" by simp
  note t = idle_mouse_move_inert_touch_move_ungated
             [of ?s "\<lparr>clientX = 100, clientY = 0, button = 0\<rparr>" "\<lparr>clientX = 100, clientY = 0\<rparr>"]
  from t h have m: "onMouseMove \<lparr>clientX = 100, clientY = 0, button = 0\<rparr> ?s = ?s" by blast
  from t l have two: "onTouchMove [\<lparr>clientX = 100, clientY = 0\<rparr>, \<lparr>clientX = 3, clientY = 4\<rparr>] ?s = ?s"
    by blast
  from t have one: "onTouchMove [\<lparr>clientX = 100, clientY = 0\<rparr>] ?s =
     (let Y = yaw ?s - (clientX \<lparr>clientX = 100, clientY = 0\<rparr> - px (previousMousePosition ?s))
                * rotateSensitivity ?s;
          P = clamp (pitch ?s - (clientY \<lparr>clientX = 100, clientY = 0\<rparr> - py (previousMousePosition ?s))
                * rotateSensitivity ?s) (- pi / 2) (pi / 2)
      in ?s\<lparr>yaw := Y, pitch := P,
           camera := lookAt (add (position (camera ?s))
                               (Vector3 (cos P * sin Y) (sin P) (cos P * cos Y))) (camera ?s),
           dispatched := dispatched ?s @ [Change],
           previousMousePosition := Point (clientX \<lparr>clientX = 100, clientY = 0\<rparr>)
                                          (clientY \<lparr>clientX = 100, clientY = 0\<rparr>)\<rparr>)"
    by blast
  have y: "yaw (onTouchMove [\<lparr>clientX = 100, clientY = 0\<rparr>] ?s) = - (1 / 2)"
    unfolding one by (simp add: Let_def SpinCameraControls_def)
  have d: "dispatched (onTouchMove [\<lparr>clientX = 100, clientY = 0\<rparr>] ?s) = [Change]"
    unfolding one by (simp add: Let_def SpinCameraControls_def)
  from h m two y d show ?thesis by simp
qed

subsection \<open>The start of a gesture\<close>

text \<open>
  Outside a gesture the angles are not written: release, leave, touch-end, wheel,
  touch-start and a mouse move with the drag flag down all keep yaw and pitch.
\<close>

lemma angles_kept_between_gestures:
  "yaw (onMouseUp s) = yaw s \<and> pitch (onMouseUp s) = pitch s \<and>
   yaw (onTouchEnd s) = yaw s \<and> pitch (onTouchEnd s) = pitch s \<and>
   yaw (snd (onWheel w s)) = yaw s \<and> pitch (snd (onWheel w s)) = pitch s \<and>
   yaw (onTouchStart ts s) = yaw s \<and> pitch (onTouchStart ts s) = pitch s \<and>
   (\<not> isDragging s \<longrightarrow> yaw (onMouseMove e s) = yaw s \<and> pitch (onMouseMove e s) = pitch s)"
  by (simp add: onMouseUp_def onTouchEnd_def onWheel_def onTouchStart_def onMouseMove_def
      dispatchEvent_def Let_def)

text \<open>
  C5 asks that a first-finger touch-start re-initialises yaw and pitch from the
  camera's direction, as the mouse press does. The code of \<^verbatim>\<open>_onTouchStart\<close> makes no
  call to \<^verbatim>\<open>getWorldDirection\<close> and writes neither angle. On a new controller whose
  camera faces \<open>-Z\<close>, a touch-start with one finger at \<open>(10, 20)\<close> only stores
  the pointer and emits start: yaw stays 0, where the mouse press on the same camera
  sets it to \<open>-\<pi>\<close>. A touch move that follows with no displacement at all then turns
  the camera to the point one unit along \<open>+Z\<close> from its position, away from where it
  was facing.
\<close>

theorem touch_start_no_resync:
  "onTouchStart [\<lparr>clientX = 10, clientY = 20\<rparr>] (SpinCameraControls sceneCamera) =
     (SpinCameraControls sceneCamera)\<lparr>previousMousePosition := Point 10 20, dispatched := [Start]\<rparr> \<and>
   yaw (onTouchStart [\<lparr>clientX = 10, clientY = 20\<rparr>] (SpinCameraControls sceneCamera)) = 0 \<and>
   yaw (onMouseDown (Vector3 NegativeZero NegativeZero (Number (- 1))) \<lparr>clientX = 10, clientY = 20, button = 0\<rparr>
          (SpinCameraControls sceneCamera)) = - pi \<and>
   calls (camera (onTouchMove [\<lparr>clientX = 10, clientY = 20\<rparr>]
            (onTouchStart [\<lparr>clientX = 10, clientY = 20\<rparr>] (SpinCameraControls sceneCamera))))
     = [LookAt (Vector3 0 10 11)]"
  using pi_ge_zero
  by (simp add: SpinCameraControls_def sceneCamera_def onTouchStart_def onTouchMove_def onMouseDown_def
      mouseAction_def Let_def dispatchEvent_def updateCameraRotation_def lookAt_def add_def atan2_def)

subsection \<open>Presses and touches that are not bound to rotate\<close>

text \<open>
  A mouse press whose button does not resolve to the rotate action (another button, an
  absent binding, or another action) leaves the whole state as it is.
\<close>

lemma press_unbound_inert:
  "mouseAction e s \<noteq> Some MOUSE_ROTATE \<Longrightarrow> onMouseDown d e s = s"
  by (auto simp add: onMouseDown_def)

text \<open>
  C6 asks the same of a touch-start. The code of \<^verbatim>\<open>_onTouchStart\<close> never reads the
  \<^verbatim>\<open>touches\<close> binding. With both touch bindings removed, a one-finger touch-start
  still stores the pointer and emits start; and with the default bindings, where
  \<^verbatim>\<open>TWO\<close> is absent, a two-finger touch-start still emits start.
\<close>

theorem touch_binding_ignored:
  "ONE (touches ((SpinCameraControls sceneCamera)\<lparr>touches := \<lparr>ONE = None, TWO = None\<rparr>\<rparr>)) = None \<and>
   onTouchStart [\<lparr>clientX = 10, clientY = 20\<rparr>]
       ((SpinCameraControls sceneCamera)\<lparr>touches := \<lparr>ONE = None, TWO = None\<rparr>\<rparr>) =
     (SpinCameraControls sceneCamera)
       \<lparr>touches := \<lparr>ONE = None, TWO = None\<rparr>,
        previousMousePosition := Point 10 20, dispatched := [Start]\<rparr> \<and>
   TWO (touches (SpinCameraControls sceneCamera)) = None \<and>
   onTouchStart [\<lparr>clientX = 10, clientY = 20\<rparr>, \<lparr>clientX = 30, clientY = 40\<rparr>]
       (SpinCameraControls sceneCamera) =
     (SpinCameraControls sceneCamera)\<lparr>dispatched := [Start]\<rparr>"
  by (simp add: SpinCameraControls_def onTouchStart_def Let_def dispatchEvent_def)

subsection \<open>The end of a gesture\<close>

text \<open>
  C7, as stated, fails for touch-end: \<^verbatim>\<open>_onTouchEnd\<close> only emits. After a left mouse
  press has raised the drag flag, a touch-end leaves it raised.
\<close>

theorem touch_end_keeps_drag_counterexample:
  "isDragging (onMouseDown (Vector3 NegativeZero NegativeZero (Number (- 1))) \<lparr>clientX = 10, clientY = 20, button = 0\<rparr>
                 (SpinCameraControls sceneCamera)) \<and>
   isDragging (onTouchEnd (onMouseDown (Vector3 NegativeZero NegativeZero (Number (- 1))) \<lparr>clientX = 10, clientY = 20, button = 0\<rparr>
                 (SpinCameraControls sceneCamera)))"
  by (simp add: SpinCameraControls_def onTouchEnd_def onMouseDown_def mouseAction_def Let_def
      dispatchEvent_def)

text \<open>
  C7, amended. Every mouse release or leave lowers the drag flag and appends an end
  notification, whatever the flag was; every touch-end appends an end notification,
  whatever the flag is, and changes nothing else, the flag included.
\<close>

theorem release_ends_session:
  "onMouseUp s = s\<lparr>isDragging := False, dispatched := dispatched s @ [End]\<rparr> \<and>
   handle MouseUp s = onMouseUp s \<and>
   handle MouseLeave s = onMouseUp s \<and>
   onTouchEnd s = s\<lparr>dispatched := dispatched s @ [End]\<rparr>"
  by (simp add: onMouseUp_def onTouchEnd_def dispatchEvent_def)

subsection \<open>The wheel with zoom enabled\<close>

lemma handle_fov_bounds: "minFov (handle i s) = minFov s \<and> maxFov (handle i s) = maxFov s"
  by (cases i) (simp_all add: onWheel_def onMouseDown_def onMouseMove_def onMouseUp_def
      onTouchStart_def onTouchMove_def onTouchEnd_def dispatchEvent_def updateCameraRotation_def
      Let_def)

lemma run_fov_bounds: "minFov (run ins s) = minFov s \<and> maxFov (run ins s) = maxFov s"
  by (induction ins arbitrary: s) (simp_all add: handle_fov_bounds)

text \<open>
  C8. With zoom enabled, a wheel event of scroll delta \<open>v\<close> calls \<^verbatim>\<open>preventDefault\<close>,
  sets the field of view to \<open>clamp (fov + v * zoomSensitivity, minFov, maxFov)\<close>,
  calls the projection update once and changes nothing else, so no notification is
  emitted. The two bounds are 30 and 90 in a new controller and after any sequence of
  events. With bounds 30 and 90 and sensitivity 0.01, a delta of 10000 takes every field
  of view of at least \<open>-10\<close> (every positive one in particular) to exactly 90.
\<close>

theorem wheel_zoom:
  assumes "enableZoom s"
  shows "onWheel e s =
      (e\<lparr>defaultPrevented := True\<rparr>,
       s\<lparr>camera := (camera s)
            \<lparr>fov := clamp (fov (camera s) + deltaY e * zoomSensitivity s) (minFov s) (maxFov s),
             calls := calls (camera s) @ [UpdateProjectionMatrix]\<rparr>\<rparr>) \<and>
    minFov (run ins (SpinCameraControls cam)) = 30 \<and>
    maxFov (run ins (SpinCameraControls cam)) = 90 \<and>
    (minFov s = 30 \<and> maxFov s = 90 \<and> zoomSensitivity s = 0.01 \<and> deltaY e = 10000 \<and>
     - 10 \<le> fov (camera s) \<longrightarrow> fov (camera (snd (onWheel e s))) = 90)"
  using assms
  by (simp add: onWheel_def Let_def preventDefault_def updateProjectionMatrix_def run_fov_bounds
      SpinCameraControls_def clamp_def)

theorem wheel_zoom_witness:
  "enableZoom (SpinCameraControls sceneCamera) \<and>
   onWheel \<lparr>deltaY = 10000, defaultPrevented = False\<rparr> (SpinCameraControls sceneCamera) =
     (\<lparr>deltaY = 10000, defaultPrevented = True\<rparr>,
      (SpinCameraControls sceneCamera)
        \<lparr>camera := sceneCamera\<lparr>fov := 90, calls := [UpdateProjectionMatrix]\<rparr>\<rparr>) \<and>
   dispatched (snd (onWheel \<lparr>deltaY = 10000, defaultPrevented = False\<rparr>
                      (SpinCameraControls sceneCamera))) = []"
proof -
  let ?s = "SpinCameraControls sceneCamera"
  have h: "enableZoom ?s" by (simp add: SpinCameraControls_def)
  show ?thesis
    using wheel_zoom [OF h, of "\<lparr>deltaY = 10000, defaultPrevented = False\<rparr>"] h
    by (simp add: SpinCameraControls_def sceneCamera_def clamp_def)
qed

subsection \<open>A second touch point\<close>

text \<open>
  C9. A touch-start or touch-move that reports two or more touch points changes
  neither yaw nor pitch nor the last pointer (the move changes nothing at all), and
  neither does a touch-end: of the touch events only those with exactly one touch
  point write the tracked state.
\<close>

theorem multi_touch_isolated:
  assumes "2 \<le> length ts"
  shows "yaw (onTouchStart ts s) = yaw s \<and> pitch (onTouchStart ts s) = pitch s \<and>
         previousMousePosition (onTouchStart ts s) = previousMousePosition s \<and>
         onTouchMove ts s = s \<and>
         yaw (onTouchEnd s) = yaw s \<and> pitch (onTouchEnd s) = pitch s \<and>
         previousMousePosition (onTouchEnd s) = previousMousePosition s"
  using assms
  by (simp add: onTouchStart_def onTouchMove_def onTouchEnd_def dispatchEvent_def Let_def)

text \<open>
  One finger goes down at \<open>(10, 20)\<close>; a second arrives, and then both move: the last
  pointer is still \<open>(10, 20)\<close> and the two-finger move leaves the state as it was.
\<close>

theorem multi_touch_isolated_witness:
  "(2::nat) \<le> length [\<lparr>clientX = 10, clientY = 20\<rparr>, \<lparr>clientX = 30, clientY = 40\<rparr>] \<and>
   previousMousePosition
     (onTouchStart [\<lparr>clientX = 10, clientY = 20\<rparr>, \<lparr>clientX = 30, clientY = 40\<rparr>]
        (onTouchStart [\<lparr>clientX = 10, clientY = 20\<rparr>] (SpinCameraControls sceneCamera)))
     = Point 10 20 \<and>
   onTouchMove [\<lparr>clientX = 15, clientY = 25\<rparr>, \<lparr>clientX = 30, clientY = 40\<rparr>]
       (onTouchStart [\<lparr>clientX = 10, clientY = 20\<rparr>] (SpinCameraControls sceneCamera))
     = onTouchStart [\<lparr>clientX = 10, clientY = 20\<rparr>] (SpinCameraControls sceneCamera)"
proof -
  let ?s = "onTouchStart [\<lparr>clientX = 10, clientY = 20\<rparr>] (SpinCameraControls sceneCamera)"
  have h: "(2::nat) \<le> length [\<lparr>clientX = 10, clientY = 20\<rparr>, \<lparr>clientX = 30, clientY = 40\<rparr>]"
    by simp
  have h2: "(2::nat) \<le> length [\<lparr>clientX = 15, clientY = 25\<rparr>, \<lparr>clientX = 30, clientY = 40\<rparr>]"
    by simp
  have p: "previousMousePosition ?s = Point 10 20"
    by (simp add: onTouchStart_def dispatchEvent_def Let_def)
  show ?thesis
    using multi_touch_isolated [OF h, of ?s] multi_touch_isolated [OF h2, of ?s] p h
    by simp
qed

end
